theory Spec2Isabelle
  imports Complex_Main "HOL-Library.Multiset" "HOL-Library.Product_Lexorder"
begin

section \<open>Bayesian oil market insights: the query, statistics and event-correlation code\<close>

text \<open>
  The development embeds two Python files: the Flask backend
  (\<^verbatim>\<open>src/dashboard/backend/app.py\<close>) and the Streamlit dashboard
  (\<^verbatim>\<open>src/dashboard/app.py\<close>).

  The backend keeps three module-level globals that every endpoint reads, copies
  data frames and overwrites a column of a copy in place. It is therefore modelled
  over an explicit object store: a global is a reference (or Python's \<open>None\<close>),
  \<^verbatim>\<open>.copy()\<close> and boolean indexing allocate a new frame, and a column assignment
  updates the frame a local variable refers to. Exceptions are values, and the
  \<^verbatim>\<open>try/except\<close> that wraps each endpoint turns them into the 500 response.

  What belongs to pandas rather than to this repository is modelled as follows.
  \<^item> A timestamp is an integer (nanoseconds since the epoch). The \<open>Date\<close> column
    of a loaded frame holds timestamps only (no missing dates).
  \<^item> \<^verbatim>\<open>pd.to_datetime\<close> on a string is a parameter \<open>td\<close>: \<open>None\<close> when pandas
    raises, otherwise a timezone-naive timestamp, a timezone-aware one, or \<open>NaT\<close>.
    Comparing the naive date column with an aware timestamp raises; comparing it with
    \<open>NaT\<close> is false for every row. \<^verbatim>\<open>strftime('%Y-%m-%d')\<close> is a parameter \<open>sf\<close>.
  \<^item> A float cell is a real number or \<open>NaN\<close>; rounding and infinities are not
    modelled. The aggregations skip \<open>NaN\<close> as pandas does by default, and
    \<^verbatim>\<open>std\<close> divides by the number of valid values minus one.
  \<^item> \<^verbatim>\<open>sort_values\<close> on one column takes the rows at the positions that the
    library's \<^verbatim>\<open>argsort\<close> returns for that column. The default sort is not stable,
    so \<open>argsort\<close> is a parameter: the order it gives to equal keys is not fixed.
\<close>

subsection \<open>Values and frames\<close>

type_synonym timestamp = int

datatype parsed = Naive timestamp | Aware timestamp | NaT

datatype pyfloat = NaN | Fl real

record 'd price_row =
  Date :: 'd
  Price :: pyfloat
  log_return :: pyfloat

record 'd event_row =
  Event_Date :: 'd
  Event_Type :: string
  Description :: string
  Expected_Impact :: string

text \<open>
  A data frame is either the price table or the event table. The flag of a price
  table says whether it has a \<open>log_return\<close> column at all (\<^verbatim>\<open>'log_return' in df.columns\<close>);
  without the column the field of a row carries no information. The type parameter is
  the type of the date column: timestamps after loading, strings after \<^verbatim>\<open>strftime\<close>.
\<close>

datatype 'd frame =
  Prices "'d price_row list" bool
| Events "'d event_row list"

datatype obj = Stamped "timestamp frame" | Formatted "string frame"

fun nrows :: "'d frame \<Rightarrow> nat" where
  "nrows (Prices rs c) = length rs"
| "nrows (Events es) = length es"

fun select_date :: "('d \<Rightarrow> bool) \<Rightarrow> 'd frame \<Rightarrow> 'd frame" where
  "select_date P (Prices rs c) = Prices (filter (\<lambda>r. P (Date r)) rs) c"
| "select_date P (Events es) = Events (filter (\<lambda>e. P (Event_Date e)) es)"

definition fmt_price :: "('d \<Rightarrow> 'e) \<Rightarrow> 'd price_row \<Rightarrow> 'e price_row" where
  "fmt_price g r = \<lparr>Date = g (Date r), Price = Price r, log_return = log_return r\<rparr>"

definition fmt_event :: "('d \<Rightarrow> 'e) \<Rightarrow> 'd event_row \<Rightarrow> 'e event_row" where
  "fmt_event g e = \<lparr>Event_Date = g (Event_Date e), Event_Type = Event_Type e,
     Description = Description e, Expected_Impact = Expected_Impact e\<rparr>"

fun map_date :: "('d \<Rightarrow> 'e) \<Rightarrow> 'd frame \<Rightarrow> 'e frame" where
  "map_date g (Prices rs c) = Prices (map (fmt_price g) rs) c"
| "map_date g (Events es) = Events (map (fmt_event g) es)"

record changepoint =
  change_point_date :: string
  change_point_index :: int
  change_point_uncertainty_days :: real
  mu_before :: real
  mu_after :: real
  sigma_before :: real
  sigma_after :: real
  mean_change :: real
  volatility_change :: real
  prob_mean_increase :: real
  prob_volatility_increase :: real
  price_before :: real
  price_after :: real
  price_change_pct :: real

subsection \<open>Series aggregations (pandas defaults: skipna, ddof = 1)\<close>

fun dropna :: "pyfloat list \<Rightarrow> real list" where
  "dropna [] = []"
| "dropna (NaN # xs) = dropna xs"
| "dropna (Fl x # xs) = x # dropna xs"

definition series_mean :: "pyfloat list \<Rightarrow> pyfloat" where
  "series_mean xs =
     (let v = dropna xs in
      if v = [] then NaN else Fl (sum_list v / real (length v)))"

definition series_median :: "pyfloat list \<Rightarrow> pyfloat" where
  "series_median xs =
     (let v = sort (dropna xs); n = length v in
      if n = 0 then NaN
      else if odd n then Fl (v ! (n div 2))
      else Fl ((v ! (n div 2 - 1) + v ! (n div 2)) / 2))"

definition series_std :: "pyfloat list \<Rightarrow> pyfloat" where
  "series_std xs =
     (let v = dropna xs; n = length v in
      if n \<le> 1 then NaN
      else (let m = sum_list v / real n in
            Fl (sqrt (sum_list (map (\<lambda>x. (x - m)\<^sup>2) v) / real (n - 1)))))"

definition series_min :: "pyfloat list \<Rightarrow> pyfloat" where
  "series_min xs = (case dropna xs of [] \<Rightarrow> NaN | y # ys \<Rightarrow> Fl (fold min ys y))"

definition series_max :: "pyfloat list \<Rightarrow> pyfloat" where
  "series_max xs = (case dropna xs of [] \<Rightarrow> NaN | y # ys \<Rightarrow> Fl (fold max ys y))"

text \<open>\<^verbatim>\<open>Series.unique()\<close>: the distinct values in order of first appearance.\<close>

definition unique :: "'a list \<Rightarrow> 'a list" where
  "unique xs = rev (remdups (rev xs))"

subsection \<open>The object store, exceptions and responses\<close>

type_synonym ref = nat

record store =
  price_data :: "ref option"
  events_data :: "ref option"
  changepoint_results :: "changepoint option"
  heap :: "ref \<rightharpoonup> obj"
  next_ref :: ref

text \<open>
  The exceptions the endpoints can raise; \<^verbatim>\<open>str(e)\<close> of each is the \<open>error\<close> field
  of the failure body.
  \<^item> \<open>NoneType_AttributeError\<close>: \<^verbatim>\<open>'NoneType' object has no attribute 'copy'\<close>;
  \<^item> \<open>NoneType_TypeError\<close>: \<^verbatim>\<open>'NoneType' object is not subscriptable\<close>;
  \<^item> \<open>DateParseError s\<close>: what \<^verbatim>\<open>pd.to_datetime(s)\<close> raises;
  \<^item> \<open>NaT_ValueError\<close>: \<^verbatim>\<open>strftime\<close> on the minimum of an empty date column;
  \<^item> \<open>KeyError c\<close>: the frame has no column \<open>c\<close>;
  \<^item> \<open>Frame_TypeError\<close>: a datetime operation on a column that holds strings;
  \<^item> \<open>Compare_TypeError\<close>: the naive date column compared with, or subtracted
    from, a timezone-aware timestamp;
  \<^item> \<open>IndexError\<close>: a row position outside the frame.
\<close>

datatype exn =
  NoneType_AttributeError
| NoneType_TypeError
| DateParseError string
| NaT_ValueError
| KeyError string
| Frame_TypeError
| Compare_TypeError
| IndexError

record stats =
  count :: nat
  mean_price :: pyfloat
  median_price :: pyfloat
  std_price :: pyfloat
  min_price :: pyfloat
  max_price :: pyfloat
  mean_return :: "pyfloat option"
  volatility :: "pyfloat option"

datatype payload =
  Health string string string
| Records nat "string frame"
| Changepoint "changepoint option"
| Statistics stats
| Event_Types "string list"
| Date_Range string string

datatype body = Success payload | Failure exn

type_synonym response = "nat \<times> body"

record request =
  start_date :: "string option"
  end_date :: "string option"
  event_type :: "string option"

type_synonym 'a prog = "store \<Rightarrow> (exn + 'a) \<times> store"

definition ret :: "'a \<Rightarrow> 'a prog" where
  "ret x s = (Inr x, s)"

definition raise :: "exn \<Rightarrow> 'a prog" where
  "raise e s = (Inl e, s)"

definition then_do :: "'a prog \<Rightarrow> ('a \<Rightarrow> 'b prog) \<Rightarrow> 'b prog" where
  "then_do m k s = (case m s of (Inl e, s') \<Rightarrow> (Inl e, s') | (Inr x, s') \<Rightarrow> k x s')"

text \<open>
  Every endpoint has the shape
  \<^verbatim>\<open>try: ... return jsonify({'success': True, ...})\<close>
  \<^verbatim>\<open>except Exception as e: return jsonify({'success': False, 'error': str(e)}), 500\<close>.
\<close>

definition try_except :: "payload prog \<Rightarrow> store \<Rightarrow> response \<times> store" where
  "try_except b s =
     (case b s of
        (Inr p, s') \<Rightarrow> ((200, Success p), s')
      | (Inl e, s') \<Rightarrow> ((500, Failure e), s'))"

subsection \<open>Frame operations on the store\<close>

definition alloc :: "obj \<Rightarrow> ref prog" where
  "alloc ob s =
     (Inr (next_ref s), s\<lparr>heap := (heap s)(next_ref s \<mapsto> ob), next_ref := Suc (next_ref s)\<rparr>)"

text \<open>\<^verbatim>\<open>g.copy()\<close> on a global: \<open>None\<close> has no such attribute.\<close>

definition copy :: "ref option \<Rightarrow> ref prog" where
  "copy g s =
     (case g of
        None \<Rightarrow> raise NoneType_AttributeError s
      | Some p \<Rightarrow>
          (case heap s p of
             Some ob \<Rightarrow> alloc ob s
           | None \<Rightarrow> raise NoneType_AttributeError s))"

text \<open>\<^verbatim>\<open>g[...]\<close> on a global: \<open>None\<close> is not subscriptable.\<close>

definition subscript :: "ref option \<Rightarrow> obj prog" where
  "subscript g s =
     (case g of
        None \<Rightarrow> raise NoneType_TypeError s
      | Some p \<Rightarrow>
          (case heap s p of
             Some ob \<Rightarrow> ret ob s
           | None \<Rightarrow> raise NoneType_TypeError s))"

definition to_datetime :: "(string \<Rightarrow> parsed option) \<Rightarrow> string \<Rightarrow> parsed prog" where
  "to_datetime td a = (case td a of None \<Rightarrow> raise (DateParseError a) | Some v \<Rightarrow> ret v)"

text \<open>\<^verbatim>\<open>df[df['Date'] >= v]\<close> and \<^verbatim>\<open>df[df['Date'] <= v]\<close>: a new frame. The
  comparison raises for a timezone-aware \<open>v\<close>, whatever the rows, and is false on
  every row for \<open>NaT\<close>.\<close>

definition getitem_date ::
  "(timestamp \<Rightarrow> timestamp \<Rightarrow> bool) \<Rightarrow> parsed \<Rightarrow> ref \<Rightarrow> ref prog" where
  "getitem_date cmp v df s =
     (case heap s df of
        Some (Stamped f) \<Rightarrow>
          (case v of
             Naive t \<Rightarrow> alloc (Stamped (select_date (\<lambda>d. cmp d t) f)) s
           | Aware t \<Rightarrow> raise Compare_TypeError s
           | NaT \<Rightarrow> alloc (Stamped (select_date (\<lambda>d. False) f)) s)
      | _ \<Rightarrow> raise Frame_TypeError s)"

text \<open>\<^verbatim>\<open>df[df['Event_Type'] == t]\<close>: a new frame.\<close>

definition getitem_type :: "string \<Rightarrow> ref \<Rightarrow> ref prog" where
  "getitem_type t df s =
     (case heap s df of
        Some (Stamped (Events es)) \<Rightarrow>
          alloc (Stamped (Events (filter (\<lambda>e. Event_Type e = t) es))) s
      | Some (Formatted (Events es)) \<Rightarrow>
          alloc (Formatted (Events (filter (\<lambda>e. Event_Type e = t) es))) s
      | _ \<Rightarrow> raise (KeyError ''Event_Type'') s)"

text \<open>\<^verbatim>\<open>df['Date'] = df['Date'].dt.strftime('%Y-%m-%d')\<close>: overwrites the column of
  the frame \<open>df\<close> refers to.\<close>

definition setitem_date_strftime :: "(timestamp \<Rightarrow> string) \<Rightarrow> ref \<Rightarrow> unit prog" where
  "setitem_date_strftime sf df s =
     (case heap s df of
        Some (Stamped f) \<Rightarrow> (Inr (), s\<lparr>heap := (heap s)(df \<mapsto> Formatted (map_date sf f))\<rparr>)
      | _ \<Rightarrow> raise Frame_TypeError s)"

text \<open>\<^verbatim>\<open>{'count': len(df), 'data': df.to_dict(orient='records')}\<close>.\<close>

definition records :: "ref \<Rightarrow> payload prog" where
  "records df s =
     (case heap s df of
        Some (Formatted f) \<Rightarrow> ret (Records (nrows f) f) s
      | _ \<Rightarrow> raise Frame_TypeError s)"

text \<open>\<^verbatim>\<open>if a: df = df[cmp(df['Date'], pd.to_datetime(a))]\<close>. The test is Python's
  truthiness of \<^verbatim>\<open>request.args.get(...)\<close>: false for \<open>None\<close> and for the empty string.\<close>

definition date_filter ::
  "(timestamp \<Rightarrow> timestamp \<Rightarrow> bool) \<Rightarrow> (string \<Rightarrow> parsed option) \<Rightarrow> string option \<Rightarrow>
   ref \<Rightarrow> ref prog" where
  "date_filter cmp td arg df =
     (case arg of
        None \<Rightarrow> ret df
      | Some a \<Rightarrow>
          if a = [] then ret df
          else then_do (to_datetime td a) (\<lambda>v. getitem_date cmp v df))"

definition type_filter :: "string option \<Rightarrow> ref \<Rightarrow> ref prog" where
  "type_filter arg df =
     (case arg of
        None \<Rightarrow> ret df
      | Some a \<Rightarrow> if a = [] then ret df else getitem_type a df)"

subsection \<open>Loading\<close>

text \<open>
  \<open>load_all_data\<close> reads three artifacts in turn inside one \<^verbatim>\<open>try\<close>; each argument is
  the artifact as read and parsed, \<open>None\<close> when reading it raises. Any failure makes
  all three globals \<open>None\<close>.
\<close>

definition failed_load :: store where
  "failed_load = \<lparr>price_data = None, events_data = None, changepoint_results = None,
     heap = Map.empty, next_ref = 0\<rparr>"

definition load_all_data ::
  "(timestamp price_row list \<times> bool) option \<Rightarrow> timestamp event_row list option \<Rightarrow>
   changepoint option \<Rightarrow> store" where
  "load_all_data csv_prices csv_events json_results =
     (case csv_prices of
        None \<Rightarrow> failed_load
      | Some (rs, c) \<Rightarrow>
          (case csv_events of
             None \<Rightarrow> failed_load
           | Some es \<Rightarrow>
               (case json_results of
                  None \<Rightarrow> failed_load
                | Some res \<Rightarrow>
                    \<lparr>price_data = Some 0, events_data = Some 1, changepoint_results = Some res,
                     heap = [0 \<mapsto> Stamped (Prices rs c), 1 \<mapsto> Stamped (Events es)],
                     next_ref = 2\<rparr>)))"

subsection \<open>The endpoints of the backend\<close>

definition health_check :: "store \<Rightarrow> response \<times> store" where
  "health_check s =
     ((200, Success (Health ''healthy'' ''Bayesian Oil Market API is running'' ''1.0.0'')), s)"

definition get_prices ::
  "(string \<Rightarrow> parsed option) \<Rightarrow> (timestamp \<Rightarrow> string) \<Rightarrow> request \<Rightarrow> store \<Rightarrow>
   response \<times> store" where
  "get_prices td sf req s =
     try_except
       (then_do (copy (price_data s)) (\<lambda>df.
        then_do (date_filter (\<lambda>d t. t \<le> d) td (start_date req) df) (\<lambda>df.
        then_do (date_filter (\<lambda>d t. d \<le> t) td (end_date req) df) (\<lambda>df.
        then_do (setitem_date_strftime sf df) (\<lambda>_.
        records df))))) s"

definition get_events ::
  "(string \<Rightarrow> parsed option) \<Rightarrow> (timestamp \<Rightarrow> string) \<Rightarrow> request \<Rightarrow> store \<Rightarrow>
   response \<times> store" where
  "get_events td sf req s =
     try_except
       (then_do (copy (events_data s)) (\<lambda>df.
        then_do (date_filter (\<lambda>d t. t \<le> d) td (start_date req) df) (\<lambda>df.
        then_do (date_filter (\<lambda>d t. d \<le> t) td (end_date req) df) (\<lambda>df.
        then_do (type_filter (event_type req) df) (\<lambda>df.
        then_do (setitem_date_strftime sf df) (\<lambda>_.
        records df)))))) s"

definition get_changepoint :: "store \<Rightarrow> response \<times> store" where
  "get_changepoint s = try_except (ret (Changepoint (changepoint_results s))) s"

text \<open>The dictionary built at lines 180 to 189 of the backend, from the filtered frame.\<close>

definition stats_of :: "ref \<Rightarrow> payload prog" where
  "stats_of df s =
     (case heap s df of
        Some (Stamped (Prices rs c)) \<Rightarrow>
          ret (Statistics
            \<lparr>count = length rs,
             mean_price = series_mean (map Price rs),
             median_price = series_median (map Price rs),
             std_price = series_std (map Price rs),
             min_price = series_min (map Price rs),
             max_price = series_max (map Price rs),
             mean_return = (if c then Some (series_mean (map log_return rs)) else None),
             volatility = (if c then Some (series_std (map log_return rs)) else None)\<rparr>) s
      | _ \<Rightarrow> raise (KeyError ''Price'') s)"

definition get_statistics ::
  "(string \<Rightarrow> parsed option) \<Rightarrow> request \<Rightarrow> store \<Rightarrow> response \<times> store" where
  "get_statistics td req s =
     try_except
       (then_do (copy (price_data s)) (\<lambda>df.
        then_do (date_filter (\<lambda>d t. t \<le> d) td (start_date req) df) (\<lambda>df.
        then_do (date_filter (\<lambda>d t. d \<le> t) td (end_date req) df) (\<lambda>df.
        stats_of df)))) s"

definition get_event_types :: "store \<Rightarrow> response \<times> store" where
  "get_event_types s =
     try_except
       (then_do (subscript (events_data s)) (\<lambda>ob.
        case ob of
          Stamped (Events es) \<Rightarrow> ret (Event_Types (unique (map Event_Type es)))
        | Formatted (Events es) \<Rightarrow> ret (Event_Types (unique (map Event_Type es)))
        | _ \<Rightarrow> raise (KeyError ''Event_Type''))) s"

definition get_date_range :: "(timestamp \<Rightarrow> string) \<Rightarrow> store \<Rightarrow> response \<times> store" where
  "get_date_range sf s =
     try_except
       (then_do (subscript (price_data s)) (\<lambda>ob.
        case ob of
          Stamped (Prices rs c) \<Rightarrow>
            (case map Date rs of
               [] \<Rightarrow> raise NaT_ValueError
             | d # ds \<Rightarrow> ret (Date_Range (sf (fold min ds d)) (sf (fold max ds d))))
        | Stamped (Events es) \<Rightarrow> raise (KeyError ''Date'')
        | Formatted f \<Rightarrow> raise Frame_TypeError)) s"

subsection \<open>The Streamlit dashboard\<close>

text \<open>
  The dashboard works on the frames returned by its cached loader and only builds new
  frames from them, so its code is modelled on row lists directly.
\<close>

definition ns_per_day :: int where
  "ns_per_day = 86400000000000"

text \<open>\<^verbatim>\<open>.dt.date\<close> of a timestamp, as a day number, and \<^verbatim>\<open>.dt.days\<close> of a
  difference of timestamps (whole days, rounded down).\<close>

definition dt_date :: "timestamp \<Rightarrow> int" where
  "dt_date t = t div ns_per_day"


text \<open>Lines 373 to 377 of \<open>main\<close>: the sidebar's date range, a tuple of dates.\<close>

definition df_filtered :: "int list \<Rightarrow> timestamp price_row list \<Rightarrow> timestamp price_row list" where
  "df_filtered date_range df =
     (case date_range of
        [a, b] \<Rightarrow> filter (\<lambda>r. a \<le> dt_date (Date r) \<and> dt_date (Date r) \<le> b) df
      | _ \<Rightarrow> df)"


text \<open>Lines 490 to 492 (and 190, 203 of \<open>create_returns_chart\<close>): the two regimes.\<close>

definition before_after ::
  "(string \<Rightarrow> parsed option) \<Rightarrow> changepoint \<Rightarrow> timestamp price_row list \<Rightarrow>
   exn + (timestamp price_row list \<times> timestamp price_row list)" where
  "before_after td results df =
     (case td (change_point_date results) of
        None \<Rightarrow> Inl (DateParseError (change_point_date results))
      | Some (Naive change_date) \<Rightarrow>
          Inr (filter (\<lambda>r. Date r < change_date) df,
               filter (\<lambda>r. change_date \<le> Date r) df)
      | Some (Aware t) \<Rightarrow> Inl Compare_TypeError
      | Some NaT \<Rightarrow> Inr ([], []))"








text \<open>
  The date format as the specification words it, \<^verbatim>\<open>YYYY-MM-DD\<close>: ten characters,
  digits but for the two hyphens. Every ISO calendar date has this shape.
\<close>

definition spec_iso_shape :: "string \<Rightarrow> bool" where
  "spec_iso_shape a =
     (length a = 10 \<and> a ! 4 = CHR ''-'' \<and> a ! 7 = CHR ''-'' \<and>
      list_all (\<lambda>c. c \<in> set ''0123456789'') (take 4 a @ take 2 (drop 5 a) @ drop 8 a))"

subsection \<open>Hypotheses of the theorems\<close>

text \<open>The store holds the price table \<open>rs\<close> (with or without a return column), the
  event table \<open>es\<close>.\<close>

definition holds_prices :: "store \<Rightarrow> timestamp price_row list \<Rightarrow> bool \<Rightarrow> bool" where
  "holds_prices s rs c =
     (case price_data s of None \<Rightarrow> False | Some p \<Rightarrow> heap s p = Some (Stamped (Prices rs c)))"

definition holds_events :: "store \<Rightarrow> timestamp event_row list \<Rightarrow> bool" where
  "holds_events s es =
     (case events_data s of None \<Rightarrow> False | Some p \<Rightarrow> heap s p = Some (Stamped (Events es)))"

text \<open>What a date argument means to the endpoints: the bound it imposes, if any, when
  it is absent, empty or parsed to a naive timestamp; \<open>None\<close> otherwise.\<close>

definition date_arg :: "(string \<Rightarrow> parsed option) \<Rightarrow> string option \<Rightarrow> timestamp option option" where
  "date_arg td arg =
     (case arg of
        None \<Rightarrow> Some None
      | Some a \<Rightarrow>
          if a = [] then Some None
          else (case td a of Some (Naive t) \<Rightarrow> Some (Some t) | _ \<Rightarrow> None))"

definition in_range :: "timestamp option \<Rightarrow> timestamp option \<Rightarrow> timestamp \<Rightarrow> bool" where
  "in_range lo hi d =
     ((case lo of None \<Rightarrow> True | Some a \<Rightarrow> a \<le> d) \<and> (case hi of None \<Rightarrow> True | Some b \<Rightarrow> d \<le> b))"

text \<open>The globals refer to objects allocated before the call.\<close>

definition allocated :: "store \<Rightarrow> bool" where
  "allocated s =
     ((case price_data s of None \<Rightarrow> True | Some p \<Rightarrow> p < next_ref s) \<and>
      (case events_data s of None \<Rightarrow> True | Some p \<Rightarrow> p < next_ref s))"

text \<open>What the globals hold: the content of the data store.\<close>

definition stored :: "store \<Rightarrow> obj option \<times> obj option \<times> changepoint option" where
  "stored s =
     (case price_data s of None \<Rightarrow> None | Some p \<Rightarrow> heap s p,
      case events_data s of None \<Rightarrow> None | Some p \<Rightarrow> heap s p,
      changepoint_results s)"

subsection \<open>Reasoning about endpoint bodies\<close>

text \<open>
  \<open>same n s s'\<close>: the globals are the same and the objects below address \<open>n\<close> are
  untouched. \<open>safe n m Q\<close>: started with every address below \<open>n\<close> allocated, \<open>m\<close>
  leaves these objects and the globals alone, and a returned value satisfies \<open>Q\<close>.
  \<open>returns m s Q\<close>: from \<open>s\<close> the program returns a value, and \<open>Q\<close> holds of it
  and the final store. \<open>fails m s e\<close>: from \<open>s\<close> the program raises \<open>e\<close>.
\<close>

definition same :: "nat \<Rightarrow> store \<Rightarrow> store \<Rightarrow> bool" where
  "same n s s' =
     (price_data s' = price_data s \<and> events_data s' = events_data s \<and>
      changepoint_results s' = changepoint_results s \<and> (\<forall>r<n. heap s' r = heap s r))"

definition safe :: "nat \<Rightarrow> 'a prog \<Rightarrow> ('a \<Rightarrow> bool) \<Rightarrow> bool" where
  "safe n m Q =
     (\<forall>s r s'. n \<le> next_ref s \<longrightarrow> m s = (r, s') \<longrightarrow>
        same n s s' \<and> n \<le> next_ref s' \<and> (\<forall>x. r = Inr x \<longrightarrow> Q x))"

definition returns :: "'a prog \<Rightarrow> store \<Rightarrow> ('a \<Rightarrow> store \<Rightarrow> bool) \<Rightarrow> bool" where
  "returns m s Q = (\<exists>x s'. m s = (Inr x, s') \<and> Q x s')"

definition fails :: "'a prog \<Rightarrow> store \<Rightarrow> exn \<Rightarrow> bool" where
  "fails m s e = (\<exists>s'. m s = (Inl e, s'))"

text \<open>The bound a parsed date argument puts on a date, and the test an event type
  argument puts on an event.\<close>

definition bounded :: "(timestamp \<Rightarrow> timestamp \<Rightarrow> bool) \<Rightarrow> timestamp option \<Rightarrow> timestamp \<Rightarrow> bool" where
  "bounded cmp b d = (case b of None \<Rightarrow> True | Some t \<Rightarrow> cmp d t)"

definition type_ok :: "string option \<Rightarrow> timestamp event_row \<Rightarrow> bool" where
  "type_ok arg e = (case arg of None \<Rightarrow> True | Some a \<Rightarrow> if a = [] then True else Event_Type e = a)"

text \<open>The exception that filtering by a date argument raises, if any, and the first
  one that the two date arguments of a request raise.\<close>

definition date_error :: "(string \<Rightarrow> parsed option) \<Rightarrow> string option \<Rightarrow> exn option" where
  "date_error td arg =
     (case arg of
        None \<Rightarrow> None
      | Some a \<Rightarrow>
          if a = [] then None
          else (case td a of
                  None \<Rightarrow> Some (DateParseError a)
                | Some (Aware t) \<Rightarrow> Some Compare_TypeError
                | Some (Naive t) \<Rightarrow> None
                | Some NaT \<Rightarrow> None))"

definition first_date_error :: "(string \<Rightarrow> parsed option) \<Rightarrow> request \<Rightarrow> exn option" where
  "first_date_error td req =
     (case date_error td (start_date req) of
        Some e \<Rightarrow> Some e
      | None \<Rightarrow> date_error td (end_date req))"


subsection \<open>A fixture\<close>

text \<open>
  Five trading days from 2020-01-01 with prices 50, 51, 49, 52, 53, a changepoint on
  2020-01-03 and three events. The parser and formatter below stand for pandas in the
  concrete evaluations. The parser knows these five dates, the second of them written
  with slashes (which pandas accepts) and with a UTC offset (which makes the timestamp
  timezone-aware), and \<^verbatim>\<open>NaT\<close>; it rejects every other string. The sample \<open>argsort\<close>
  is one admissible sort of positions by key.
\<close>

definition day :: "int \<Rightarrow> timestamp" where
  "day n = (18262 + n) * 86400000000000"

definition sample_dates :: "(string \<times> timestamp) list" where
  "sample_dates =
     [(''2020-01-01'', day 0), (''2020-01-02'', day 1), (''2020-01-03'', day 2),
      (''2020-01-04'', day 3), (''2020-01-05'', day 4)]"

definition sample_td :: "string \<Rightarrow> parsed option" where
  "sample_td a =
     (if a = ''2020/01/02'' then Some (Naive (day 1))
      else if a = ''2020-01-02T00:00:00+00:00'' then Some (Aware (day 1))
      else if a = ''NaT'' then Some NaT
      else map_option Naive (map_of sample_dates a))"


definition sample_sf :: "timestamp \<Rightarrow> string" where
  "sample_sf t = (case find (\<lambda>p. snd p = t) sample_dates of Some p \<Rightarrow> fst p | None \<Rightarrow> ''?'')"

definition sample_prices :: "timestamp price_row list" where
  "sample_prices =
     [\<lparr>Date = day 0, Price = Fl 50, log_return = NaN\<rparr>,
      \<lparr>Date = day 1, Price = Fl 51, log_return = Fl (2 / 100)\<rparr>,
      \<lparr>Date = day 2, Price = Fl 49, log_return = Fl (- 4 / 100)\<rparr>,
      \<lparr>Date = day 3, Price = Fl 52, log_return = Fl (6 / 100)\<rparr>,
      \<lparr>Date = day 4, Price = Fl 53, log_return = Fl (2 / 100)\<rparr>]"

definition late_event :: "timestamp event_row" where
  "late_event =
     \<lparr>Event_Date = day 3, Event_Type = ''Geopolitical'', Description = ''late'',
      Expected_Impact = ''Price Increase''\<rparr>"

definition early_event :: "timestamp event_row" where
  "early_event =
     \<lparr>Event_Date = day 1, Event_Type = ''OPEC_Decision'', Description = ''early'',
      Expected_Impact = ''Price Decrease''\<rparr>"

definition same_day_event :: "timestamp event_row" where
  "same_day_event =
     \<lparr>Event_Date = day 2, Event_Type = ''Economic_Shock'', Description = ''same day'',
      Expected_Impact = ''Price Decrease''\<rparr>"

definition sample_events :: "timestamp event_row list" where
  "sample_events = [late_event, early_event, same_day_event]"

definition sample_results :: changepoint where
  "sample_results =
     \<lparr>change_point_date = ''2020-01-03'', change_point_index = 2,
      change_point_uncertainty_days = 1, mu_before = 0, mu_after = 0,
      sigma_before = 1, sigma_after = 1, mean_change = 0, volatility_change = 0,
      prob_mean_increase = 1 / 2, prob_volatility_increase = 1 / 2,
      price_before = 50, price_after = 51, price_change_pct = 2\<rparr>"

definition sample_store :: store where
  "sample_store =
     load_all_data (Some (sample_prices, True)) (Some sample_events) (Some sample_results)"

definition no_args :: request where
  "no_args = \<lparr>start_date = None, end_date = None, event_type = None\<rparr>"

section \<open>Properties\<close>

lemmas sample_events_unfold =
  sample_events_def late_event_def early_event_def same_day_event_def

subsection \<open>Frame rules: what a program leaves alone\<close>

lemma same_refl: "same n s s"
  by (simp add: same_def)

lemma same_trans: "same n s s1 \<Longrightarrow> same n s1 s2 \<Longrightarrow> same n s s2"
  by (simp add: same_def)

lemma safe_ret: "Q x \<Longrightarrow> safe n (ret x) Q"
  by (simp add: safe_def ret_def same_refl)

lemma safe_raise: "safe n (raise e) Q"
  by (simp add: safe_def raise_def same_refl)

lemma safe_weaken: "safe n m Q \<Longrightarrow> (\<And>x. Q x \<Longrightarrow> R x) \<Longrightarrow> safe n m R"
  unfolding safe_def by blast

lemma safe_then_do:
  assumes m: "safe n m Q" and k: "\<And>x. Q x \<Longrightarrow> safe n (k x) R"
  shows "safe n (then_do m k) R"
  unfolding safe_def
proof (intro allI impI)
  fix s r s'
  assume n: "n \<le> next_ref s" and run: "then_do m k s = (r, s')"
  obtain r1 s1 where m1: "m s = (r1, s1)" by (cases "m s")
  from m n m1 have s1: "same n s s1" "n \<le> next_ref s1" and q: "\<forall>x. r1 = Inr x \<longrightarrow> Q x"
    unfolding safe_def by blast+
  show "same n s s' \<and> n \<le> next_ref s' \<and> (\<forall>x. r = Inr x \<longrightarrow> R x)"
  proof (cases r1)
    case (Inl e)
    with run m1 have "r = Inl e" "s' = s1" by (simp_all add: then_do_def)
    with s1 show ?thesis by simp
  next
    case (Inr x)
    with run m1 have kx: "k x s1 = (r, s')" by (simp add: then_do_def)
    from Inr q have "Q x" by simp
    from k [OF this] s1(2) kx
    have "same n s1 s'" "n \<le> next_ref s'" "\<forall>y. r = Inr y \<longrightarrow> R y"
      unfolding safe_def by blast+
    with s1(1) show ?thesis by (blast intro: same_trans)
  qed
qed

lemma safe_alloc: "safe n (alloc ob) (\<lambda>x. n \<le> x)"
  by (auto simp: safe_def alloc_def same_def)

lemma safe_copy: "safe n (copy g) (\<lambda>x. n \<le> x)"
proof (cases g)
  case None
  then show ?thesis by (simp add: copy_def [abs_def] safe_raise)
next
  case (Some p)
  show ?thesis
    unfolding safe_def
  proof (intro allI impI)
    fix s r s'
    assume n: "n \<le> next_ref s" and run: "copy g s = (r, s')"
    show "same n s s' \<and> n \<le> next_ref s' \<and> (\<forall>x. r = Inr x \<longrightarrow> n \<le> x)"
    proof (cases "heap s p")
      case None
      with \<open>g = Some p\<close> run have "r = Inl NoneType_AttributeError" "s' = s"
        by (simp_all add: copy_def raise_def)
      with n show ?thesis by (simp add: same_refl)
    next
      case (Some ob)
      with \<open>g = Some p\<close> run have "alloc ob s = (r, s')" by (simp add: copy_def)
      with safe_alloc [of n ob] n show ?thesis unfolding safe_def by blast
    qed
  qed
qed

lemma safe_to_datetime: "safe n (to_datetime td a) (\<lambda>t. True)"
  by (cases "td a") (simp_all add: to_datetime_def safe_raise safe_ret)

lemma safe_getitem_date: "safe n (getitem_date cmp v df) (\<lambda>x. n \<le> x)"
  by (auto simp: safe_def getitem_date_def alloc_def raise_def same_def
      split: option.splits obj.splits parsed.splits)

lemma safe_getitem_type: "safe n (getitem_type t df) (\<lambda>x. n \<le> x)"
  by (auto simp: safe_def getitem_type_def alloc_def raise_def same_def
      split: option.splits obj.splits frame.splits)

lemma safe_date_filter:
  assumes "n \<le> df"
  shows "safe n (date_filter cmp td arg df) (\<lambda>x. n \<le> x)"
proof (cases arg)
  case None
  with assms show ?thesis by (simp add: date_filter_def safe_ret)
next
  case (Some a)
  show ?thesis
  proof (cases "a = []")
    case True
    with Some assms show ?thesis by (simp add: date_filter_def safe_ret)
  next
    case False
    have "safe n (then_do (to_datetime td a) (\<lambda>v. getitem_date cmp v df)) (\<lambda>x. n \<le> x)"
      by (rule safe_then_do [OF safe_to_datetime]) (rule safe_getitem_date)
    with Some False show ?thesis by (simp add: date_filter_def)
  qed
qed

lemma safe_type_filter:
  assumes "n \<le> df"
  shows "safe n (type_filter arg df) (\<lambda>x. n \<le> x)"
  using assms
  by (cases arg) (simp_all add: type_filter_def safe_ret safe_getitem_type)

lemma safe_setitem_date_strftime:
  assumes "n \<le> df"
  shows "safe n (setitem_date_strftime sf df) (\<lambda>u. True)"
  unfolding safe_def
proof (intro allI impI)
  fix s r s'
  assume n: "n \<le> next_ref s" and run: "setitem_date_strftime sf df s = (r, s')"
  have "s' = s \<or> (\<exists>ob. s' = s\<lparr>heap := (heap s)(df \<mapsto> ob)\<rparr>)"
    using run by (auto simp: setitem_date_strftime_def raise_def split: option.splits obj.splits)
  then show "same n s s' \<and> n \<le> next_ref s' \<and> (\<forall>x. r = Inr x \<longrightarrow> True)"
    using n assms by (auto simp: same_def)
qed

lemma safe_records: "safe n (records df) (\<lambda>p. \<exists>f. p = Records (nrows f) f)"
  by (auto simp: safe_def records_def ret_def raise_def same_def
      split: option.splits obj.splits)

lemma safe_stats_of: "safe n (stats_of df) (\<lambda>p. True)"
  by (auto simp: safe_def stats_of_def ret_def raise_def same_def
      split: option.splits obj.splits frame.splits)

lemma safe_try_except:
  assumes "safe n b Q" and "n \<le> next_ref s"
  shows "same n s (snd (try_except b s))"
    and "fst (try_except b s) = (c, Success p) \<Longrightarrow> Q p"
    and "n \<le> next_ref (snd (try_except b s))"
proof -
  obtain r s' where run: "b s = (r, s')" by (cases "b s")
  with assms have s': "same n s s'" and q: "\<forall>x. r = Inr x \<longrightarrow> Q x"
    and n': "n \<le> next_ref s'"
    unfolding safe_def by blast+
  from run s' show "same n s (snd (try_except b s))"
    by (cases r) (simp_all add: try_except_def)
  from run n' show "n \<le> next_ref (snd (try_except b s))"
    by (cases r) (simp_all add: try_except_def)
  assume "fst (try_except b s) = (c, Success p)"
  with run q show "Q p"
    by (cases r) (simp_all add: try_except_def)
qed

lemma safe_get_prices_body:
  "safe n
     (then_do (copy g) (\<lambda>df.
      then_do (date_filter c1 td a1 df) (\<lambda>df.
      then_do (date_filter c2 td a2 df) (\<lambda>df.
      then_do (setitem_date_strftime sf df) (\<lambda>_.
      records df)))))
     (\<lambda>p. \<exists>f. p = Records (nrows f) f)"
  by (rule safe_then_do [OF safe_copy] safe_then_do [OF safe_date_filter]
      safe_then_do [OF safe_setitem_date_strftime] safe_records | assumption)+

lemma safe_get_events_body:
  "safe n
     (then_do (copy g) (\<lambda>df.
      then_do (date_filter c1 td a1 df) (\<lambda>df.
      then_do (date_filter c2 td a2 df) (\<lambda>df.
      then_do (type_filter a3 df) (\<lambda>df.
      then_do (setitem_date_strftime sf df) (\<lambda>_.
      records df))))))
     (\<lambda>p. \<exists>f. p = Records (nrows f) f)"
  by (rule safe_then_do [OF safe_copy] safe_then_do [OF safe_date_filter]
      safe_then_do [OF safe_type_filter]
      safe_then_do [OF safe_setitem_date_strftime] safe_records | assumption)+

lemma safe_get_statistics_body:
  "safe n
     (then_do (copy g) (\<lambda>df.
      then_do (date_filter c1 td a1 df) (\<lambda>df.
      then_do (date_filter c2 td a2 df) (\<lambda>df.
      stats_of df))))
     (\<lambda>p. True)"
  by (rule safe_then_do [OF safe_copy] safe_then_do [OF safe_date_filter]
      safe_stats_of | assumption)+

lemma same_stored:
  assumes "allocated s" and "same (next_ref s) s s'"
  shows "stored s' = stored s"
  using assms
  by (auto simp: allocated_def same_def stored_def split: option.splits)

lemma same_allocated:
  assumes "allocated s" and "same (next_ref s) s s'" and "next_ref s \<le> next_ref s'"
  shows "allocated s'"
  using assms
  by (auto simp: allocated_def same_def split: option.splits)

lemma endpoints_keep_allocated:
  assumes "allocated s"
  shows "allocated (snd (get_prices td sf req s))"
    and "allocated (snd (get_events td sf req s))"
    and "allocated (snd (get_statistics td req s))"
  unfolding get_prices_def get_events_def get_statistics_def
  by (rule same_allocated [OF assms]
      safe_try_except(1) [OF safe_get_prices_body le_refl]
      safe_try_except(3) [OF safe_get_prices_body le_refl]
      safe_try_except(1) [OF safe_get_events_body le_refl]
      safe_try_except(3) [OF safe_get_events_body le_refl]
      safe_try_except(1) [OF safe_get_statistics_body le_refl]
      safe_try_except(3) [OF safe_get_statistics_body le_refl])+

subsection \<open>Run rules: what a program returns from a known store\<close>

lemma returns_then_do:
  assumes "returns m s Q" and "\<And>x s'. Q x s' \<Longrightarrow> returns (k x) s' R"
  shows "returns (then_do m k) s R"
proof -
  from assms(1) obtain x s' where m: "m s = (Inr x, s')" and q: "Q x s'"
    unfolding returns_def by blast
  from assms(2) [OF q] m show ?thesis
    by (simp add: returns_def then_do_def)
qed

lemma fails_then_do: "fails m s e \<Longrightarrow> fails (then_do m k) s e"
  by (auto simp: fails_def then_do_def)

lemma returns_then_fails:
  assumes "returns m s Q" and "\<And>x s'. Q x s' \<Longrightarrow> fails (k x) s' e"
  shows "fails (then_do m k) s e"
proof -
  from assms(1) obtain x s' where m: "m s = (Inr x, s')" and q: "Q x s'"
    unfolding returns_def by blast
  from assms(2) [OF q] m show ?thesis
    by (simp add: fails_def then_do_def)
qed

lemma returns_copy:
  assumes "g = Some p" and "heap s p = Some ob"
  shows "returns (copy g) s (\<lambda>df s'. heap s' df = Some ob)"
  using assms by (simp add: returns_def copy_def alloc_def)

lemma fails_copy_None: "fails (copy None) s NoneType_AttributeError"
  by (simp add: fails_def copy_def raise_def)

lemma fails_subscript_None: "fails (subscript None) s NoneType_TypeError"
  by (simp add: fails_def subscript_def raise_def)

lemma select_date_True: "select_date (\<lambda>d. True) f = f"
  by (cases f) simp_all

lemma returns_date_filter:
  assumes "heap s df = Some (Stamped f)" and "date_arg td arg = Some b"
  shows "returns (date_filter cmp td arg df) s
           (\<lambda>df' s'. heap s' df' = Some (Stamped (select_date (bounded cmp b) f)))"
proof (cases arg)
  case None
  with assms show ?thesis
    by (simp add: returns_def date_filter_def date_arg_def ret_def bounded_def [abs_def]
        select_date_True)
next
  case (Some a)
  show ?thesis
  proof (cases "a = []")
    case True
    with Some assms show ?thesis
      by (simp add: returns_def date_filter_def date_arg_def ret_def bounded_def [abs_def]
          select_date_True)
  next
    case False
    with Some assms(2) obtain t where t: "td a = Some (Naive t)" and b: "b = Some t"
      by (auto simp: date_arg_def split: option.splits parsed.splits)
    with Some False assms(1) show ?thesis
      by (simp add: returns_def date_filter_def then_do_def to_datetime_def ret_def
          getitem_date_def alloc_def bounded_def [abs_def])
  qed
qed

lemma fails_date_filter:
  assumes "heap s df = Some (Stamped f)" and "date_error td arg = Some e"
  shows "fails (date_filter cmp td arg df) s e"
  using assms
  by (auto simp: fails_def date_filter_def date_error_def then_do_def to_datetime_def
      getitem_date_def ret_def raise_def split: option.splits if_splits parsed.splits)

lemma returns_date_filter_frame:
  assumes "heap s df = Some (Stamped f)" and "date_error td arg = None"
  shows "returns (date_filter cmp td arg df) s (\<lambda>df' s'. \<exists>f'. heap s' df' = Some (Stamped f'))"
  using assms
  by (auto simp: returns_def date_filter_def date_error_def then_do_def to_datetime_def
      getitem_date_def ret_def alloc_def split: option.splits if_splits parsed.splits)

lemma returns_type_filter:
  assumes "heap s df = Some (Stamped (Events es))"
  shows "returns (type_filter arg df) s
           (\<lambda>df' s'. heap s' df' = Some (Stamped (Events (filter (type_ok arg) es))))"
proof (cases arg)
  case None
  with assms show ?thesis
    by (simp add: returns_def type_filter_def ret_def type_ok_def [abs_def])
next
  case (Some a)
  with assms show ?thesis
    by (cases "a = []")
       (simp_all add: returns_def type_filter_def ret_def getitem_type_def alloc_def
          type_ok_def [abs_def])
qed

lemma returns_setitem_date_strftime:
  assumes "heap s df = Some (Stamped f)"
  shows "returns (setitem_date_strftime sf df) s
           (\<lambda>u s'. heap s' df = Some (Formatted (map_date sf f)))"
  using assms by (simp add: returns_def setitem_date_strftime_def)

lemma returns_records:
  assumes "heap s df = Some (Formatted f)"
  shows "returns (records df) s (\<lambda>p s'. p = Records (nrows f) f)"
  using assms by (simp add: returns_def records_def ret_def)

lemma returns_stats_of:
  assumes "heap s df = Some (Stamped (Prices rs c))"
  shows "returns (stats_of df) s (\<lambda>p s'. p = Statistics
            \<lparr>count = length rs,
             mean_price = series_mean (map Price rs),
             median_price = series_median (map Price rs),
             std_price = series_std (map Price rs),
             min_price = series_min (map Price rs),
             max_price = series_max (map Price rs),
             mean_return = (if c then Some (series_mean (map log_return rs)) else None),
             volatility = (if c then Some (series_std (map log_return rs)) else None)\<rparr>)"
  using assms by (simp add: returns_def stats_of_def ret_def)

lemma returns_try_except:
  assumes "returns b s (\<lambda>p s'. p = P)"
  shows "fst (try_except b s) = (200, Success P)"
  using assms by (auto simp: returns_def try_except_def)

lemma fails_try_except:
  assumes "fails b s e"
  shows "fst (try_except b s) = (500, Failure e)"
  using assms by (auto simp: fails_def try_except_def)

lemma in_range_bounded:
  "(bounded (\<lambda>d t. t \<le> d) lo d \<and> bounded (\<lambda>d t. d \<le> t) hi d) = in_range lo hi d"
  by (simp add: bounded_def in_range_def)

subsection \<open>The responses of the three filtering endpoints on a loaded store\<close>

lemma get_prices_response:
  assumes "holds_prices s rs c" and lo: "date_arg td (start_date req) = Some lo"
    and hi: "date_arg td (end_date req) = Some hi"
  shows "fst (get_prices td sf req s) =
     (200, Success (Records (length (filter (\<lambda>r. in_range lo hi (Date r)) rs))
        (Prices (map (fmt_price sf) (filter (\<lambda>r. in_range lo hi (Date r)) rs)) c)))"
proof -
  from assms(1) obtain p where p: "price_data s = Some p"
    and hp: "heap s p = Some (Stamped (Prices rs c))"
    by (auto simp: holds_prices_def split: option.splits)
  let ?F = "map_date sf (select_date (bounded (\<lambda>d t. d \<le> t) hi)
              (select_date (bounded (\<lambda>d t. t \<le> d) lo) (Prices rs c)))"
  have "fst (get_prices td sf req s) = (200, Success (Records (nrows ?F) ?F))"
    unfolding get_prices_def
    by (rule returns_try_except, rule returns_then_do [OF returns_copy [OF p hp]],
        rule returns_then_do [OF returns_date_filter [OF _ lo]], assumption,
        rule returns_then_do [OF returns_date_filter [OF _ hi]], assumption,
        rule returns_then_do [OF returns_setitem_date_strftime], assumption,
        rule returns_records, assumption)
  then show ?thesis by (simp add: in_range_bounded)
qed

lemma get_events_response:
  assumes "holds_events s es" and lo: "date_arg td (start_date req) = Some lo"
    and hi: "date_arg td (end_date req) = Some hi"
  shows "fst (get_events td sf req s) =
     (200, Success (Records
        (length (filter (type_ok (event_type req)) (filter (\<lambda>e. in_range lo hi (Event_Date e)) es)))
        (Events (map (fmt_event sf)
           (filter (type_ok (event_type req)) (filter (\<lambda>e. in_range lo hi (Event_Date e)) es))))))"
proof -
  from assms(1) obtain p where p: "events_data s = Some p"
    and hp: "heap s p = Some (Stamped (Events es))"
    by (auto simp: holds_events_def split: option.splits)
  let ?es = "filter (type_ok (event_type req))
     (filter (\<lambda>e. bounded (\<lambda>d t. d \<le> t) hi (Event_Date e))
        (filter (\<lambda>e. bounded (\<lambda>d t. t \<le> d) lo (Event_Date e)) es))"
  let ?F = "map_date sf (Events ?es)"
  have "fst (get_events td sf req s) = (200, Success (Records (nrows ?F) ?F))"
    unfolding get_events_def
    by (rule returns_try_except, rule returns_then_do [OF returns_copy [OF p hp]],
        rule returns_then_do [OF returns_date_filter [OF _ lo]], assumption,
        rule returns_then_do [OF returns_date_filter [OF _ hi]], assumption,
        simp only: select_date.simps,
        rule returns_then_do [OF returns_type_filter], assumption,
        rule returns_then_do [OF returns_setitem_date_strftime], assumption,
        rule returns_records, assumption)
  then show ?thesis by (simp add: in_range_bounded)
qed

lemma get_statistics_response:
  assumes "holds_prices s rs c" and lo: "date_arg td (start_date req) = Some lo"
    and hi: "date_arg td (end_date req) = Some hi"
  shows "fst (get_statistics td req s) =
     (200, Success (Statistics
        \<lparr>count = length (filter (\<lambda>r. in_range lo hi (Date r)) rs),
         mean_price = series_mean (map Price (filter (\<lambda>r. in_range lo hi (Date r)) rs)),
         median_price = series_median (map Price (filter (\<lambda>r. in_range lo hi (Date r)) rs)),
         std_price = series_std (map Price (filter (\<lambda>r. in_range lo hi (Date r)) rs)),
         min_price = series_min (map Price (filter (\<lambda>r. in_range lo hi (Date r)) rs)),
         max_price = series_max (map Price (filter (\<lambda>r. in_range lo hi (Date r)) rs)),
         mean_return =
           (if c then Some (series_mean (map log_return (filter (\<lambda>r. in_range lo hi (Date r)) rs)))
            else None),
         volatility =
           (if c then Some (series_std (map log_return (filter (\<lambda>r. in_range lo hi (Date r)) rs)))
            else None)\<rparr>))"
proof -
  from assms(1) obtain p where p: "price_data s = Some p"
    and hp: "heap s p = Some (Stamped (Prices rs c))"
    by (auto simp: holds_prices_def split: option.splits)
  let ?rs = "filter (\<lambda>r. bounded (\<lambda>d t. d \<le> t) hi (Date r))
     (filter (\<lambda>r. bounded (\<lambda>d t. t \<le> d) lo (Date r)) rs)"
  have "fst (get_statistics td req s) =
     (200, Success (Statistics
        \<lparr>count = length ?rs,
         mean_price = series_mean (map Price ?rs),
         median_price = series_median (map Price ?rs),
         std_price = series_std (map Price ?rs),
         min_price = series_min (map Price ?rs),
         max_price = series_max (map Price ?rs),
         mean_return = (if c then Some (series_mean (map log_return ?rs)) else None),
         volatility = (if c then Some (series_std (map log_return ?rs)) else None)\<rparr>))"
    unfolding get_statistics_def
    by (rule returns_try_except, rule returns_then_do [OF returns_copy [OF p hp]],
        rule returns_then_do [OF returns_date_filter [OF _ lo]], assumption,
        rule returns_then_do [OF returns_date_filter [OF _ hi]], assumption,
        simp only: select_date.simps, rule returns_stats_of, assumption)
  then show ?thesis by (simp add: in_range_bounded)
qed

lemma date_filters_fail:
  assumes "heap s df = Some (Stamped f)" and "first_date_error td req = Some e"
  shows "fails (then_do (date_filter c1 td (start_date req) df) (\<lambda>df.
           then_do (date_filter c2 td (end_date req) df) k)) s e"
proof (cases "date_error td (start_date req)")
  case (Some e')
  with assms(2) have "date_error td (start_date req) = Some e"
    by (simp add: first_date_error_def)
  from fails_date_filter [OF assms(1) this] show ?thesis
    by (rule fails_then_do)
next
  case None
  with assms(2) have e: "date_error td (end_date req) = Some e"
    by (simp add: first_date_error_def)
  show ?thesis
  proof (rule returns_then_fails [OF returns_date_filter_frame [OF assms(1) None]])
    fix df' and s' :: store
    assume "\<exists>f'. heap s' df' = Some (Stamped f')"
    then obtain f' where "heap s' df' = Some (Stamped f')" ..
    from fails_date_filter [OF this e]
    show "fails (then_do (date_filter c2 td (end_date req) df') k) s' e"
      by (rule fails_then_do)
  qed
qed

subsection \<open>Price listing\<close>

text \<open>
  C1. On a loaded store, with each date bound absent or accepted by the parser, the
  price listing succeeds and returns exactly the observations whose date lies between
  the bounds (an absent bound does not constrain), in the order of the source, with
  the date rendered as a string. For an inverted range the result is empty.
\<close>

theorem list_prices_exact_range:
  assumes "holds_prices s rs c"
    and "date_arg td (start_date req) = Some lo"
    and "date_arg td (end_date req) = Some hi"
  shows "fst (get_prices td sf req s) =
           (200, Success (Records (length (filter (\<lambda>r. in_range lo hi (Date r)) rs))
              (Prices (map (fmt_price sf) (filter (\<lambda>r. in_range lo hi (Date r)) rs)) c)))
         \<and> (\<forall>a b. lo = Some a \<and> hi = Some b \<and> b < a \<longrightarrow>
              fst (get_prices td sf req s) = (200, Success (Records 0 (Prices [] c))))"
proof -
  have "filter (\<lambda>r. in_range (Some a) (Some b) (Date r)) rs = []" if "b < a" for a b
    using that by (induction rs) (auto simp: in_range_def)
  with get_prices_response [OF assms] show ?thesis by auto
qed

theorem list_prices_exact_range_witness:
  "fst (get_prices sample_td sample_sf
          \<lparr>start_date = Some ''2020-01-02'', end_date = Some ''2020-01-03'', event_type = None\<rparr>
          sample_store) =
     (200, Success (Records 2 (Prices
        [\<lparr>Date = ''2020-01-02'', Price = Fl 51, log_return = Fl (2 / 100)\<rparr>,
         \<lparr>Date = ''2020-01-03'', Price = Fl 49, log_return = Fl (- 4 / 100)\<rparr>] True)))
   \<and> fst (get_prices sample_td sample_sf
          \<lparr>start_date = Some ''2020-01-04'', end_date = Some ''2020-01-02'', event_type = None\<rparr>
          sample_store) = (200, Success (Records 0 (Prices [] True)))"
proof -
  let ?r1 = "\<lparr>start_date = Some ''2020-01-02'', end_date = Some ''2020-01-03'', event_type = None\<rparr>"
  let ?r2 = "\<lparr>start_date = Some ''2020-01-04'', end_date = Some ''2020-01-02'', event_type = None\<rparr>"
  have h: "holds_prices sample_store sample_prices True"
    by (simp add: holds_prices_def sample_store_def load_all_data_def)
  have 1: "date_arg sample_td (start_date ?r1) = Some (Some (day 1))"
    and 2: "date_arg sample_td (end_date ?r1) = Some (Some (day 2))"
    and 3: "date_arg sample_td (start_date ?r2) = Some (Some (day 3))"
    and 4: "date_arg sample_td (end_date ?r2) = Some (Some (day 1))"
    by (simp_all add: date_arg_def sample_td_def sample_dates_def)
  have d: "day 1 < day 3" by (simp add: day_def)
  from list_prices_exact_range [OF h 1 2, of sample_sf, THEN conjunct1]
  have a: "fst (get_prices sample_td sample_sf ?r1 sample_store) =
     (200, Success (Records 2 (Prices
        [\<lparr>Date = ''2020-01-02'', Price = Fl 51, log_return = Fl (2 / 100)\<rparr>,
         \<lparr>Date = ''2020-01-03'', Price = Fl 49, log_return = Fl (- 4 / 100)\<rparr>] True)))"
    by (simp add: in_range_def sample_prices_def day_def fmt_price_def sample_sf_def
        sample_dates_def)
  from list_prices_exact_range [OF h 3 4, of sample_sf, THEN conjunct2] d
  have b: "fst (get_prices sample_td sample_sf ?r2 sample_store) =
     (200, Success (Records 0 (Prices [] True)))"
    by blast
  from a b show ?thesis by simp
qed

subsection \<open>Loading and the fixture\<close>

lemma load_all_data_failed:
  assumes "csv_prices = None \<or> csv_events = None \<or> json_results = None"
  shows "load_all_data csv_prices csv_events json_results = failed_load"
  using assms by (auto simp: load_all_data_def split: option.splits)

lemma load_all_data_loaded:
  "load_all_data (Some (rs, c)) (Some es) (Some res) = s \<Longrightarrow>
   holds_prices s rs c \<and> holds_events s es \<and> changepoint_results s = Some res \<and> allocated s"
  by (auto simp: load_all_data_def holds_prices_def holds_events_def allocated_def)

lemma allocated_failed_load: "allocated failed_load"
  by (simp add: allocated_def failed_load_def)

lemma sample_store_holds:
  "holds_prices sample_store sample_prices True"
  "holds_events sample_store sample_events"
  "allocated sample_store"
  using load_all_data_loaded [OF sample_store_def [symmetric]] by simp_all

lemma stored_sample_store:
  "stored sample_store =
     (Some (Stamped (Prices sample_prices True)), Some (Stamped (Events sample_events)),
      Some sample_results)"
  by (simp add: stored_def sample_store_def load_all_data_def)

lemma date_arg_simps:
  "date_arg td None = Some None"
  "date_arg td (Some []) = Some None"
  "a \<noteq> [] \<Longrightarrow> td a = Some (Naive t) \<Longrightarrow> date_arg td (Some a) = Some (Some t)"
  by (simp_all add: date_arg_def)

lemma sample_td_simps:
  "sample_td '''' = None"
  "sample_td ''2020-01-01'' = Some (Naive (day 0))"
  "sample_td ''2020-01-02'' = Some (Naive (day 1))"
  "sample_td ''2020-01-03'' = Some (Naive (day 2))"
  "sample_td ''2020-01-04'' = Some (Naive (day 3))"
  "sample_td ''2020-01-05'' = Some (Naive (day 4))"
  "sample_td ''2020/01/02'' = Some (Naive (day 1))"
  "sample_td ''2020-01-02T00:00:00+00:00'' = Some (Aware (day 1))"
  "sample_td ''NaT'' = Some NaT"
  "sample_td ''03/01/2020x'' = None"
  by (simp_all add: sample_td_def sample_dates_def)

lemma sample_sf_simps:
  "sample_sf (day 0) = ''2020-01-01''"
  "sample_sf (day 1) = ''2020-01-02''"
  "sample_sf (day 2) = ''2020-01-03''"
  "sample_sf (day 3) = ''2020-01-04''"
  "sample_sf (day 4) = ''2020-01-05''"
  by (simp_all add: sample_sf_def sample_dates_def day_def)

lemma day_less [simp]: "(day m < day n) = (m < n)" "(day m \<le> day n) = (m \<le> n)"
  "(day m = day n) = (m = n)"
  by (simp_all add: day_def)

subsection \<open>Counts\<close>

text \<open>
  C10. Whatever the store and the arguments, when the price listing or the event listing
  answers with success, its \<open>count\<close> is the number of records in its \<open>data\<close>.
\<close>

theorem listing_count_matches_data:
  "(fst (get_prices td sf req s) = (code, Success (Records n f)) \<longrightarrow> n = nrows f) \<and>
   (fst (get_events td' sf' req' s') = (code', Success (Records n' f')) \<longrightarrow> n' = nrows f')"
proof (intro conjI impI)
  assume "fst (get_prices td sf req s) = (code, Success (Records n f))"
  from safe_try_except(2) [OF safe_get_prices_body _ this [unfolded get_prices_def], of 0]
  show "n = nrows f" by simp
next
  assume "fst (get_events td' sf' req' s') = (code', Success (Records n' f'))"
  from safe_try_except(2) [OF safe_get_events_body _ this [unfolded get_events_def], of 0]
  show "n' = nrows f'" by simp
qed

theorem listing_count_matches_data_witness:
  "fst (get_prices sample_td sample_sf no_args sample_store) =
     (200, Success (Records 5 (Prices (map (fmt_price sample_sf) sample_prices) True))) \<and>
   5 = nrows (Prices (map (fmt_price sample_sf) sample_prices) True) \<and>
   fst (get_events sample_td sample_sf no_args sample_store) =
     (200, Success (Records 3 (Events (map (fmt_event sample_sf) sample_events)))) \<and>
   3 = nrows (Events (map (fmt_event sample_sf) sample_events))"
proof -
  have p: "fst (get_prices sample_td sample_sf no_args sample_store) =
     (200, Success (Records 5 (Prices (map (fmt_price sample_sf) sample_prices) True)))"
    using get_prices_response [OF sample_store_holds(1), of sample_td no_args None None sample_sf]
    by (simp add: no_args_def date_arg_simps in_range_def sample_prices_def)
  have e: "fst (get_events sample_td sample_sf no_args sample_store) =
     (200, Success (Records 3 (Events (map (fmt_event sample_sf) sample_events))))"
    using get_events_response [OF sample_store_holds(2), of sample_td no_args None None sample_sf]
    by (simp add: no_args_def date_arg_simps in_range_def type_ok_def sample_events_unfold)
  from listing_count_matches_data [THEN conjunct1, rule_format, OF p]
    listing_count_matches_data [THEN conjunct2, rule_format, OF e] p e
  show ?thesis by blast
qed

subsection \<open>The store is left alone\<close>

text \<open>
  C8. The price listing, the event listing and the statistics, called with any
  arguments on any store whose globals refer to objects allocated earlier, leave the
  price table, the event table and the changepoint record as they were: the frames
  they filter and rewrite are copies.
\<close>

theorem endpoints_leave_store_unchanged:
  assumes "allocated s"
  shows "stored (snd (get_prices td sf req s)) = stored s \<and>
         stored (snd (get_events td sf req s)) = stored s \<and>
         stored (snd (get_statistics td req s)) = stored s"
proof -
  have p: "same (next_ref s) s (snd (get_prices td sf req s))"
    unfolding get_prices_def by (rule safe_try_except(1) [OF safe_get_prices_body le_refl])
  have e: "same (next_ref s) s (snd (get_events td sf req s))"
    unfolding get_events_def by (rule safe_try_except(1) [OF safe_get_events_body le_refl])
  have t: "same (next_ref s) s (snd (get_statistics td req s))"
    unfolding get_statistics_def
    by (rule safe_try_except(1) [OF safe_get_statistics_body le_refl])
  from same_stored [OF assms p] same_stored [OF assms e] same_stored [OF assms t]
  show ?thesis by simp
qed

theorem endpoints_leave_store_unchanged_witness:
  "stored (snd (get_prices sample_td sample_sf
       \<lparr>start_date = Some ''2020-01-02'', end_date = Some ''bad'', event_type = None\<rparr>
       sample_store)) =
     (Some (Stamped (Prices sample_prices True)), Some (Stamped (Events sample_events)),
      Some sample_results) \<and>
   stored (snd (get_events sample_td sample_sf
       \<lparr>start_date = Some ''2020-01-02'', end_date = None, event_type = Some ''Geopolitical''\<rparr>
       sample_store)) =
     (Some (Stamped (Prices sample_prices True)), Some (Stamped (Events sample_events)),
      Some sample_results) \<and>
   stored (snd (get_statistics sample_td no_args sample_store)) =
     (Some (Stamped (Prices sample_prices True)), Some (Stamped (Events sample_events)),
      Some sample_results)"
  using endpoints_leave_store_unchanged [OF sample_store_holds(3)]
  by (simp add: stored_sample_store)

subsection \<open>Event types\<close>




subsection \<open>Malformed dates\<close>

text \<open>
  C7 as stated fails, at two requests. The empty string does not have the shape of a
  date and the parser rejects it; a request that carries it as \<open>start_date\<close> succeeds
  with the whole series, since the guard \<^verbatim>\<open>if start_date:\<close> skips an empty argument.
  The string \<^verbatim>\<open>2020/01/02\<close> does not have the shape \<^verbatim>\<open>YYYY-MM-DD\<close> either, but
  pandas parses it; a request that carries it succeeds with the series from that day on.
\<close>

theorem non_iso_dates_served_counterexample:
  "\<not> spec_iso_shape '''' \<and>
   fst (get_prices sample_td sample_sf
          \<lparr>start_date = Some '''', end_date = None, event_type = None\<rparr> sample_store) =
     (200, Success (Records 5 (Prices (map (fmt_price sample_sf) sample_prices) True))) \<and>
   \<not> spec_iso_shape ''2020/01/02'' \<and>
   fst (get_prices sample_td sample_sf
          \<lparr>start_date = Some ''2020/01/02'', end_date = None, event_type = None\<rparr>
          sample_store) =
     (200, Success (Records 4 (Prices (map (fmt_price sample_sf) (tl sample_prices)) True)))"
proof -
  let ?r = "\<lparr>start_date = Some '''', end_date = None, event_type = None\<rparr>"
  let ?q = "\<lparr>start_date = Some ''2020/01/02'', end_date = None, event_type = None\<rparr>"
  have 1: "fst (get_prices sample_td sample_sf ?r sample_store) =
     (200, Success (Records 5 (Prices (map (fmt_price sample_sf) sample_prices) True)))"
    using get_prices_response [OF sample_store_holds(1), of sample_td ?r None None sample_sf]
    by (simp add: date_arg_simps in_range_def sample_prices_def)
  have "date_arg sample_td (start_date ?q) = Some (Some (day 1))"
    by (simp add: date_arg_simps sample_td_simps)
  from get_prices_response [OF sample_store_holds(1) this, of None sample_sf]
  have 2: "fst (get_prices sample_td sample_sf ?q sample_store) =
     (200, Success (Records 4 (Prices (map (fmt_price sample_sf) (tl sample_prices)) True)))"
    by (simp add: date_arg_simps in_range_def sample_prices_def)
  have 3: "\<not> spec_iso_shape ''''" "\<not> spec_iso_shape ''2020/01/02''"
    by (simp_all add: spec_iso_shape_def)
  from 1 2 3 show ?thesis by simp
qed

text \<open>
  C7, amended. On a loaded store, when filtering by the date arguments raises
  (\<open>start_date\<close> before \<open>end_date\<close>; an empty argument raises nothing), the price
  listing, the event listing and the statistics answer with the generic failure:
  status 500 and the message of the exception. The exception is the parser's for a
  string that pandas rejects, and the comparison's for a string that parses to a
  timezone-aware timestamp. An unloaded store answers the same request with status 500
  too, with the message of the missing attribute; only the message tells the two apart.
\<close>

theorem date_error_fails_500:
  assumes "holds_prices s rs c" and "holds_events s es"
    and "first_date_error td req = Some e"
  shows "fst (get_prices td sf req s) = (500, Failure e) \<and>
         fst (get_events td sf req s) = (500, Failure e) \<and>
         fst (get_statistics td req s) = (500, Failure e) \<and>
         (\<forall>a. start_date req = Some a \<and> a \<noteq> [] \<and> td a = None \<longrightarrow> e = DateParseError a) \<and>
         (\<forall>a. date_error td (start_date req) = None \<and>
              end_date req = Some a \<and> a \<noteq> [] \<and> td a = None \<longrightarrow> e = DateParseError a) \<and>
         fst (get_prices td sf req failed_load) = (500, Failure NoneType_AttributeError)"
proof -
  from assms(1) obtain p where p: "price_data s = Some p"
    and hp: "heap s p = Some (Stamped (Prices rs c))"
    by (auto simp: holds_prices_def split: option.splits)
  from assms(2) obtain q where q: "events_data s = Some q"
    and hq: "heap s q = Some (Stamped (Events es))"
    by (auto simp: holds_events_def split: option.splits)
  have 1: "fst (get_prices td sf req s) = (500, Failure e)"
    unfolding get_prices_def
    by (rule fails_try_except, rule returns_then_fails [OF returns_copy [OF p hp]])
       (rule date_filters_fail [OF _ assms(3)])
  have 2: "fst (get_events td sf req s) = (500, Failure e)"
    unfolding get_events_def
    by (rule fails_try_except, rule returns_then_fails [OF returns_copy [OF q hq]])
       (rule date_filters_fail [OF _ assms(3)])
  have 3: "fst (get_statistics td req s) = (500, Failure e)"
    unfolding get_statistics_def
    by (rule fails_try_except, rule returns_then_fails [OF returns_copy [OF p hp]])
       (rule date_filters_fail [OF _ assms(3)])
  have 4: "fst (get_prices td sf req failed_load) = (500, Failure NoneType_AttributeError)"
    unfolding get_prices_def
    by (rule fails_try_except, rule fails_then_do)
       (simp add: failed_load_def fails_copy_None)
  have 5: "\<forall>a. start_date req = Some a \<and> a \<noteq> [] \<and> td a = None \<longrightarrow> e = DateParseError a"
    using assms(3) by (auto simp: first_date_error_def date_error_def)
  have 6: "\<forall>a. date_error td (start_date req) = None \<and>
      end_date req = Some a \<and> a \<noteq> [] \<and> td a = None \<longrightarrow> e = DateParseError a"
    using assms(3) by (auto simp: first_date_error_def date_error_def)
  from 1 2 3 4 5 6 show ?thesis by simp
qed

theorem date_error_fails_500_witness:
  "fst (get_prices sample_td sample_sf
          \<lparr>start_date = Some ''2020-01-02'', end_date = Some ''03/01/2020x'', event_type = None\<rparr>
          sample_store) = (500, Failure (DateParseError ''03/01/2020x'')) \<and>
   fst (get_statistics sample_td
          \<lparr>start_date = Some ''03/01/2020x'', end_date = None, event_type = None\<rparr>
          sample_store) = (500, Failure (DateParseError ''03/01/2020x'')) \<and>
   fst (get_events sample_td sample_sf
          \<lparr>start_date = Some ''2020-01-02T00:00:00+00:00'', end_date = Some ''03/01/2020x'',
           event_type = None\<rparr>
          sample_store) = (500, Failure Compare_TypeError)"
proof -
  let ?r = "\<lparr>start_date = Some ''2020-01-02'', end_date = Some ''03/01/2020x'', event_type = None\<rparr>"
  let ?q = "\<lparr>start_date = Some ''03/01/2020x'', end_date = None, event_type = None\<rparr>"
  let ?w = "\<lparr>start_date = Some ''2020-01-02T00:00:00+00:00'', end_date = Some ''03/01/2020x'',
           event_type = None\<rparr>"
  have r: "first_date_error sample_td ?r = Some (DateParseError ''03/01/2020x'')"
    and q: "first_date_error sample_td ?q = Some (DateParseError ''03/01/2020x'')"
    and w: "first_date_error sample_td ?w = Some Compare_TypeError"
    by (simp_all add: first_date_error_def date_error_def sample_td_simps)
  from date_error_fails_500 [OF sample_store_holds(1,2) r, of sample_sf]
    date_error_fails_500 [OF sample_store_holds(1,2) q, of sample_sf]
    date_error_fails_500 [OF sample_store_holds(1,2) w, of sample_sf]
  show ?thesis by simp
qed

text \<open>A bound that parses to \<open>NaT\<close> raises nothing and selects no row.\<close>

lemma nat_bound_selects_nothing:
  "fst (get_prices sample_td sample_sf
          \<lparr>start_date = Some ''NaT'', end_date = None, event_type = None\<rparr> sample_store) =
     (200, Success (Records 0 (Prices [] True)))"
  by (simp add: get_prices_def try_except_def then_do_def copy_def alloc_def date_filter_def
      to_datetime_def getitem_date_def setitem_date_strftime_def records_def ret_def
      sample_store_def load_all_data_def sample_td_simps)

subsection \<open>Health and the unloaded store\<close>

lemma health_check_never_fails:
  "health_check s =
     ((200, Success (Health ''healthy'' ''Bayesian Oil Market API is running'' ''1.0.0'')), s)"
  by (simp add: health_check_def)

lemma failed_load_failures:
  "fst (get_prices td sf req failed_load) = (500, Failure NoneType_AttributeError)"
  "fst (get_events td sf req failed_load) = (500, Failure NoneType_AttributeError)"
  "fst (get_statistics td req failed_load) = (500, Failure NoneType_AttributeError)"
  "fst (get_event_types failed_load) = (500, Failure NoneType_TypeError)"
  "fst (get_date_range sf failed_load) = (500, Failure NoneType_TypeError)"
  unfolding get_prices_def get_events_def get_statistics_def get_event_types_def
    get_date_range_def
  by (rule fails_try_except, rule fails_then_do,
      simp add: failed_load_def fails_copy_None fails_subscript_None)+

text \<open>
  C9. After a failed load the changepoint endpoint does not report a failure: it
  answers 200 with success and a null record, where its five siblings answer 500.
\<close>

theorem changepoint_after_failed_load:
  "fst (get_changepoint (load_all_data None (Some sample_events) (Some sample_results))) =
     (200, Success (Changepoint None))"
  by (simp add: load_all_data_def failed_load_def get_changepoint_def try_except_def ret_def)

subsection \<open>Statistics\<close>

lemma dropna_Fl: "dropna (map Fl ps) = ps"
  by (induction ps) simp_all

lemma length_dropna: "length (dropna xs) \<le> length xs"
  by (induction xs rule: dropna.induct) simp_all

lemma series_of_empty:
  "series_mean [] = NaN" "series_median [] = NaN" "series_std [] = NaN"
  "series_min [] = NaN" "series_max [] = NaN"
  by (simp_all add: series_mean_def series_median_def series_std_def series_min_def
      series_max_def)

lemma series_std_single: "length xs = 1 \<Longrightarrow> series_std xs = NaN"
  using length_dropna [of xs] by (simp add: series_std_def Let_def)

lemma series_std_sample:
  "2 \<le> length ps \<Longrightarrow>
   series_std (map Fl ps) =
     Fl (sqrt (sum_list (map (\<lambda>x. (x - sum_list ps / real (length ps))\<^sup>2) ps) /
               real (length ps - 1)))"
  by (simp add: series_std_def dropna_Fl Let_def)

lemma series_skip_undefined:
  "series_mean xs = series_mean (map Fl (dropna xs))"
  "series_std xs = series_std (map Fl (dropna xs))"
  by (simp_all add: series_mean_def series_std_def dropna_Fl)

text \<open>
  C2 as stated fails: over the empty slice of an inverted range the statistics are
  reported with \<open>NaN\<close> in every field but the count, not with absent fields.
\<close>

theorem empty_slice_statistics_counterexample:
  "fst (get_statistics sample_td
          \<lparr>start_date = Some ''2020-01-04'', end_date = Some ''2020-01-02'', event_type = None\<rparr>
          sample_store) =
     (200, Success (Statistics
        \<lparr>count = 0, mean_price = NaN, median_price = NaN, std_price = NaN, min_price = NaN,
         max_price = NaN, mean_return = Some NaN, volatility = Some NaN\<rparr>))"
proof -
  let ?r = "\<lparr>start_date = Some ''2020-01-04'', end_date = Some ''2020-01-02'', event_type = None\<rparr>"
  have s: "filter (\<lambda>r. in_range (Some (day 3)) (Some (day 1)) (Date r)) sample_prices = []"
    by (simp add: in_range_def sample_prices_def)
  from get_statistics_response [OF sample_store_holds(1),
      of sample_td ?r "Some (day 3)" "Some (day 1)"]
  show ?thesis
    by (simp add: date_arg_simps sample_td_simps s series_of_empty)
qed

text \<open>
  C2, amended. On a loaded store, with date arguments that are absent or accepted by
  the parser, the statistics endpoint succeeds with the count \<open>N\<close> of the slice. For
  \<open>N = 0\<close> the five price statistics are \<open>NaN\<close>; for \<open>N = 1\<close> \<open>std_price\<close> is
  \<open>NaN\<close>; for \<open>N \<ge> 2\<close> defined prices \<open>std_price\<close> is their sample standard
  deviation, with denominator \<open>N - 1\<close>.
\<close>

theorem statistics_n_policy:
  assumes "holds_prices s rs c"
    and "date_arg td (start_date req) = Some lo"
    and "date_arg td (end_date req) = Some hi"
    and "slice = filter (\<lambda>r. in_range lo hi (Date r)) rs"
  shows "\<exists>st. fst (get_statistics td req s) = (200, Success (Statistics st)) \<and>
           count st = length slice \<and>
           (slice = [] \<longrightarrow>
              mean_price st = NaN \<and> median_price st = NaN \<and> std_price st = NaN \<and>
              min_price st = NaN \<and> max_price st = NaN) \<and>
           (length slice = 1 \<longrightarrow> std_price st = NaN) \<and>
           (\<forall>ps. map Price slice = map Fl ps \<and> 2 \<le> length ps \<longrightarrow>
              std_price st =
                Fl (sqrt (sum_list (map (\<lambda>x. (x - sum_list ps / real (length ps))\<^sup>2) ps) /
                          real (length ps - 1))))"
  unfolding get_statistics_response [OF assms(1-3)] assms(4)
  by (intro exI conjI refl)
     (auto simp: series_of_empty series_std_single series_std_sample)

theorem statistics_n_policy_witness:
  "(\<exists>st. fst (get_statistics sample_td
          \<lparr>start_date = Some ''2020-01-04'', end_date = Some ''2020-01-02'', event_type = None\<rparr>
          sample_store) = (200, Success (Statistics st)) \<and>
        count st = 0 \<and> mean_price st = NaN \<and> std_price st = NaN) \<and>
   (\<exists>st. fst (get_statistics sample_td
          \<lparr>start_date = Some ''2020-01-02'', end_date = Some ''2020-01-02'', event_type = None\<rparr>
          sample_store) = (200, Success (Statistics st)) \<and>
        count st = 1 \<and> std_price st = NaN) \<and>
   (\<exists>st. fst (get_statistics sample_td
          \<lparr>start_date = Some ''2020-01-01'', end_date = Some ''2020-01-03'', event_type = None\<rparr>
          sample_store) = (200, Success (Statistics st)) \<and>
        count st = 3 \<and> std_price st = Fl 1)"
proof -
  let ?r0 = "\<lparr>start_date = Some ''2020-01-04'', end_date = Some ''2020-01-02'', event_type = None\<rparr>"
  let ?r1 = "\<lparr>start_date = Some ''2020-01-02'', end_date = Some ''2020-01-02'', event_type = None\<rparr>"
  let ?r3 = "\<lparr>start_date = Some ''2020-01-01'', end_date = Some ''2020-01-03'', event_type = None\<rparr>"
  have a0: "date_arg sample_td (start_date ?r0) = Some (Some (day 3))"
    and b0: "date_arg sample_td (end_date ?r0) = Some (Some (day 1))"
    and a1: "date_arg sample_td (start_date ?r1) = Some (Some (day 1))"
    and b1: "date_arg sample_td (end_date ?r1) = Some (Some (day 1))"
    and a3: "date_arg sample_td (start_date ?r3) = Some (Some (day 0))"
    and b3: "date_arg sample_td (end_date ?r3) = Some (Some (day 2))"
    by (simp_all add: date_arg_simps sample_td_simps)
  have s0: "[] = filter (\<lambda>r. in_range (Some (day 3)) (Some (day 1)) (Date r)) sample_prices"
    by (simp add: in_range_def sample_prices_def)
  have s1: "[\<lparr>Date = day 1, Price = Fl 51, log_return = Fl (2 / 100)\<rparr>] =
      filter (\<lambda>r. in_range (Some (day 1)) (Some (day 1)) (Date r)) sample_prices"
    by (simp add: in_range_def sample_prices_def)
  have s3: "[\<lparr>Date = day 0, Price = Fl 50, log_return = NaN\<rparr>,
       \<lparr>Date = day 1, Price = Fl 51, log_return = Fl (2 / 100)\<rparr>,
       \<lparr>Date = day 2, Price = Fl 49, log_return = Fl (- 4 / 100)\<rparr>] =
      filter (\<lambda>r. in_range (Some (day 0)) (Some (day 2)) (Date r)) sample_prices"
    by (simp add: in_range_def sample_prices_def)
  from statistics_n_policy [OF sample_store_holds(1) a0 b0 s0]
  have 0: "\<exists>st. fst (get_statistics sample_td ?r0 sample_store) = (200, Success (Statistics st)) \<and>
        count st = 0 \<and> mean_price st = NaN \<and> std_price st = NaN"
    by auto
  from statistics_n_policy [OF sample_store_holds(1) a1 b1 s1]
  have 1: "\<exists>st. fst (get_statistics sample_td ?r1 sample_store) = (200, Success (Statistics st)) \<and>
        count st = 1 \<and> std_price st = NaN"
    by auto
  from statistics_n_policy [OF sample_store_holds(1) a3 b3 s3]
  obtain st where st: "fst (get_statistics sample_td ?r3 sample_store) = (200, Success (Statistics st))"
    "count st = 3"
    and sd: "\<And>ps. [Fl 50, Fl 51, Fl 49] = map Fl ps \<Longrightarrow> 2 \<le> length ps \<Longrightarrow>
      std_price st =
        Fl (sqrt (sum_list (map (\<lambda>x. (x - sum_list ps / real (length ps))\<^sup>2) ps) /
                  real (length ps - 1)))"
    by auto
  from sd [of "[50, 51, 49]"] have "std_price st = Fl 1" by simp
  with st have 3: "\<exists>st. fst (get_statistics sample_td ?r3 sample_store) =
        (200, Success (Statistics st)) \<and> count st = 3 \<and> std_price st = Fl 1"
    by blast
  from 0 1 3 show ?thesis by blast
qed

text \<open>
  C5 as stated fails: the slice that holds the first observation only has no defined
  return, and the statistics still report \<open>mean_return\<close> and \<open>volatility\<close>, as
  \<open>NaN\<close>.
\<close>

theorem undefined_returns_still_reported_counterexample:
  "dropna (map log_return
      (filter (\<lambda>r. in_range (Some (day 0)) (Some (day 0)) (Date r)) sample_prices)) = [] \<and>
   fst (get_statistics sample_td
          \<lparr>start_date = Some ''2020-01-01'', end_date = Some ''2020-01-01'', event_type = None\<rparr>
          sample_store) =
     (200, Success (Statistics
        \<lparr>count = 1, mean_price = Fl 50, median_price = Fl 50, std_price = NaN,
         min_price = Fl 50, max_price = Fl 50, mean_return = Some NaN,
         volatility = Some NaN\<rparr>))"
proof -
  let ?r = "\<lparr>start_date = Some ''2020-01-01'', end_date = Some ''2020-01-01'', event_type = None\<rparr>"
  have s: "filter (\<lambda>r. in_range (Some (day 0)) (Some (day 0)) (Date r)) sample_prices =
      [\<lparr>Date = day 0, Price = Fl 50, log_return = NaN\<rparr>]"
    by (simp add: in_range_def sample_prices_def)
  from get_statistics_response [OF sample_store_holds(1),
      of sample_td ?r "Some (day 0)" "Some (day 0)"]
  show ?thesis
    by (simp add: date_arg_simps sample_td_simps s series_mean_def series_median_def
        series_std_def series_min_def series_max_def)
qed

text \<open>
  C5, amended. On a loaded store, with date arguments that are absent or accepted by
  the parser, \<open>mean_return\<close> and \<open>volatility\<close> are reported (not null) if and only
  if the price table has a \<open>log_return\<close> column. They are then computed from the
  defined returns of the slice alone: the mean is their sum over their number, and is
  \<open>NaN\<close> when there is none.
\<close>

theorem returns_reported_iff_column:
  assumes "holds_prices s rs c"
    and "date_arg td (start_date req) = Some lo"
    and "date_arg td (end_date req) = Some hi"
    and "defined = dropna (map log_return (filter (\<lambda>r. in_range lo hi (Date r)) rs))"
  shows "\<exists>st. fst (get_statistics td req s) = (200, Success (Statistics st)) \<and>
           (mean_return st \<noteq> None \<longleftrightarrow> c) \<and> (volatility st \<noteq> None \<longleftrightarrow> c) \<and>
           (c \<longrightarrow>
              mean_return st =
                Some (if defined = [] then NaN
                      else Fl (sum_list defined / real (length defined))) \<and>
              volatility st = Some (series_std (map Fl defined)))"
  unfolding get_statistics_response [OF assms(1-3)] assms(4)
  by (intro exI conjI refl)
     (auto simp: series_skip_undefined(2) [symmetric] series_mean_def Let_def
        split: if_splits)

theorem returns_reported_iff_column_witness:
  "\<exists>st. fst (get_statistics sample_td
          \<lparr>start_date = Some ''2020-01-01'', end_date = Some ''2020-01-03'', event_type = None\<rparr>
          sample_store) = (200, Success (Statistics st)) \<and>
        mean_return st = Some (Fl (- 1 / 100))"
proof -
  let ?r3 = "\<lparr>start_date = Some ''2020-01-01'', end_date = Some ''2020-01-03'', event_type = None\<rparr>"
  have a3: "date_arg sample_td (start_date ?r3) = Some (Some (day 0))"
    and b3: "date_arg sample_td (end_date ?r3) = Some (Some (day 2))"
    by (simp_all add: date_arg_simps sample_td_simps)
  have d: "[2 / 100, - 4 / 100] =
      dropna (map log_return
        (filter (\<lambda>r. in_range (Some (day 0)) (Some (day 2)) (Date r)) sample_prices))"
    by (simp add: in_range_def sample_prices_def)
  from returns_reported_iff_column [OF sample_store_holds(1) a3 b3 d]
  show ?thesis by auto
qed

subsection \<open>The two regimes of the dashboard\<close>

text \<open>
  C3. When the changepoint date parses to a naive timestamp, the dashboard's split of the filtered slice,
  whatever the date range of the sidebar, gives two parts that are disjoint and that
  together hold every row of the slice exactly once; a row is in the first part if and
  only if its date is strictly before the changepoint, so a row on the changepoint date
  is in the second.
\<close>

theorem regimes_partition_slice:
  assumes "td (change_point_date results) = Some (Naive change_date)"
    and "slice = df_filtered date_range df"
  shows "\<exists>before after.
           before_after td results slice = Inr (before, after) \<and>
           set before \<inter> set after = {} \<and>
           set before \<union> set after = set slice \<and>
           mset before + mset after = mset slice \<and>
           (\<forall>r \<in> set slice.
              (r \<in> set before \<longleftrightarrow> Date r < change_date) \<and>
              (r \<in> set after \<longleftrightarrow> change_date \<le> Date r)) \<and>
           (\<forall>r \<in> set slice. Date r = change_date \<longrightarrow> r \<in> set after \<and> r \<notin> set before)"
proof -
  let ?b = "filter (\<lambda>r. Date r < change_date) slice"
  let ?a = "filter (\<lambda>r. change_date \<le> Date r) slice"
  have run: "before_after td results slice = Inr (?b, ?a)"
    using assms(1) by (simp add: before_after_def)
  have m: "mset ?b + mset ?a = mset slice"
    by (induction slice) auto
  have i: "set ?b \<inter> set ?a = {}"
    by auto
  have u: "set ?b \<union> set ?a = set slice"
    by auto
  have w: "\<forall>r \<in> set slice.
      (r \<in> set ?b \<longleftrightarrow> Date r < change_date) \<and> (r \<in> set ?a \<longleftrightarrow> change_date \<le> Date r)"
    by simp
  have b: "\<forall>r \<in> set slice. Date r = change_date \<longrightarrow> r \<in> set ?a \<and> r \<notin> set ?b"
    by simp
  from run i u m w b show ?thesis by blast
qed

theorem regimes_partition_slice_witness:
  "\<exists>before after.
     before_after sample_td sample_results (df_filtered [18262, 18266] sample_prices) =
       Inr (before, after) \<and>
     set before \<inter> set after = {} \<and>
     mset before + mset after = mset sample_prices \<and>
     \<lparr>Date = day 2, Price = Fl 49, log_return = Fl (- 4 / 100)\<rparr> \<in> set after \<and>
     \<lparr>Date = day 2, Price = Fl 49, log_return = Fl (- 4 / 100)\<rparr> \<notin> set before"
proof -
  have t: "sample_td (change_point_date sample_results) = Some (Naive (day 2))"
    by (simp add: sample_results_def sample_td_simps)
  have s: "sample_prices = df_filtered [18262, 18266] sample_prices"
    by (simp add: df_filtered_def sample_prices_def dt_date_def ns_per_day_def day_def)
  have r: "\<lparr>Date = day 2, Price = Fl 49, log_return = Fl (- 4 / 100)\<rparr> \<in> set sample_prices"
    by (simp add: sample_prices_def)
  from regimes_partition_slice [of sample_td sample_results "day 2" sample_prices
      "[18262, 18266]" sample_prices, OF t s] r show ?thesis
    unfolding s [symmetric] by fastforce
qed

subsection \<open>Events nearest to the changepoint\<close>







end
